theory Spec2Isabelle
  imports Complex_Main "HOL-Library.Char_ord" "HOL-Library.List_Lexorder"
begin

section \<open>Text primitives\<close>

text \<open>
  Python strings are sequences of code points. They are modelled as Isabelle strings, so
  every character stands for one code point below 256. Floating-point scores are modelled
  as real numbers: arithmetic is exact, and every score is a finite number.
\<close>

definition py_isspace :: "char \<Rightarrow> bool" where
  \<comment> \<open>\<open>str.isspace\<close> on the code points below 256\<close>
  "py_isspace c = (of_char c \<in> {9, 10, 11, 12, 13, 28, 29, 30, 31, 32, 133, 160 :: nat})"

definition rstrip :: "string \<Rightarrow> string" where
  "rstrip s = rev (dropWhile py_isspace (rev s))"

definition lstrip :: "string \<Rightarrow> string" where
  "lstrip s = dropWhile py_isspace s"

definition strip :: "string \<Rightarrow> string" where
  "strip s = lstrip (rstrip s)"

fun join :: "string \<Rightarrow> string list \<Rightarrow> string" where
  "join sep [] = []"
| "join sep [x] = x"
| "join sep (x # y # ys) = x @ sep @ join sep (y # ys)"

fun starts_with :: "string \<Rightarrow> string \<Rightarrow> bool" where
  \<comment> \<open>\<open>starts_with p s\<close>: the literal \<open>p\<close> matches at the beginning of \<open>s\<close>\<close>
  "starts_with [] s = True"
| "starts_with (p # ps) [] = False"
| "starts_with (p # ps) (c # cs) = (p = c \<and> starts_with ps cs)"

section \<open>Citation sanitizer (agent.py, \<open>_clean_citations\<close>)\<close>

text \<open>
  \<open>re.finditer(r"\[([^\]]+)\]", text)\<close>: the non-overlapping matches from left to right,
  each as (start, end, group 1). At an opening bracket the class \<open>[^\]]+\<close> takes every
  character up to the next closing bracket; it needs at least one character, and the
  closing bracket must exist. After a match the scan resumes behind it.
\<close>

function bracket_matches :: "nat \<Rightarrow> string \<Rightarrow> (nat \<times> nat \<times> string) list" where
  "bracket_matches pos [] = []"
| "bracket_matches pos (c # cs) =
     (if c = CHR ''['' then
        (let inner = takeWhile (\<lambda>x. x \<noteq> CHR '']'') cs;
             rest = dropWhile (\<lambda>x. x \<noteq> CHR '']'') cs
         in if inner = [] \<or> rest = [] then bracket_matches (pos + 1) cs
            else (pos, pos + length inner + 2, inner)
                 # bracket_matches (pos + length inner + 2) (tl rest))
      else bracket_matches (pos + 1) cs)"
  by pat_completeness auto
termination
proof (relation "measure (\<lambda>(pos, s). length s)")
  fix pos :: nat and c :: char and cs x xa
  assume "xa = dropWhile (\<lambda>x. x \<noteq> CHR '']'') cs"
  moreover have "length (dropWhile (\<lambda>x. x \<noteq> CHR '']'') cs) \<le> length cs"
    by (rule length_dropWhile_le)
  ultimately show "((pos + length x + 2, tl xa), pos, c # cs) \<in> measure (\<lambda>(pos, s). length s)"
    by simp
qed auto

text \<open>
  The removal loop. The spans were computed on the original text, and the loop cuts each
  invalid one out of the current text with \<open>text[:m.start()] + text[m.end():]\<close>.
\<close>

fun remove_invalid :: "string list \<Rightarrow> (nat \<times> nat \<times> string) list \<Rightarrow> string \<Rightarrow> string" where
  "remove_invalid allowed_tags [] txt = txt"
| "remove_invalid allowed_tags ((s, e, inner) # ms) txt =
     remove_invalid allowed_tags ms
       (if inner \<in> set allowed_tags then txt else take s txt @ drop e txt)"

text \<open>
  The check \<open>re.finditer(r"\[(?:" + "|".join(map(re.escape, allowed_tags)) + ")\]", text)\<close>:
  some escaped tag, in brackets, occurs in the text. Joining no tag at all gives the empty
  alternative.
\<close>

definition tag_alternatives :: "string list \<Rightarrow> string list" where
  "tag_alternatives allowed_tags = (if allowed_tags = [] then [[]] else allowed_tags)"

definition bracketed :: "string \<Rightarrow> string" where
  "bracketed t = ''['' @ t @ '']''"

fun allowed_tag_remains :: "string list \<Rightarrow> string \<Rightarrow> bool" where
  "allowed_tag_remains allowed_tags [] = False"
| "allowed_tag_remains allowed_tags (c # cs) =
     ((\<exists>t \<in> set (tag_alternatives allowed_tags). starts_with (bracketed t) (c # cs))
      \<or> allowed_tag_remains allowed_tags cs)"

definition clean_citations :: "string \<Rightarrow> string list \<Rightarrow> string list \<Rightarrow> string" where
  "clean_citations txt allowed_tags fallback_tags =
     (if txt = [] then txt
      else
        let txt' = remove_invalid allowed_tags (bracket_matches 0 txt) txt
        in if \<not> allowed_tag_remains allowed_tags txt' \<and> fallback_tags \<noteq> []
           then rstrip txt' @ '' '' @ join '' '' (map bracketed fallback_tags)
           else txt')"

section \<open>Tokenizer (retriever.py, \<open>tokenize\<close>)\<close>

definition py_lower_char :: "char \<Rightarrow> char" where
  \<comment> \<open>\<open>str.lower\<close> on the code points below 256\<close>
  "py_lower_char c =
     (let n = of_char c :: nat
      in if (65 \<le> n \<and> n \<le> 90) \<or> (192 \<le> n \<and> n \<le> 222 \<and> n \<noteq> 215)
         then char_of (n + 32) else c)"

definition lower :: "string \<Rightarrow> string" where
  "lower s = map py_lower_char s"

definition is_term_char :: "char \<Rightarrow> bool" where
  \<comment> \<open>the class \<open>[a-z0-9]\<close>\<close>
  "is_term_char c =
     (let n = of_char c :: nat in (97 \<le> n \<and> n \<le> 122) \<or> (48 \<le> n \<and> n \<le> 57))"

text \<open>
  \<open>re.findall(r"[a-z0-9]+(?:'[a-z0-9]+)?", text)\<close>: a maximal run of term characters,
  extended by one apostrophe and a further run when both are there.
\<close>

function find_tokens :: "string \<Rightarrow> string list" where
  "find_tokens [] = []"
| "find_tokens (c # cs) =
     (if is_term_char c then
        (let run = c # takeWhile is_term_char cs;
             rest = dropWhile is_term_char cs
         in case rest of
              [] \<Rightarrow> [run]
            | q # rest' \<Rightarrow>
                if q = CHR 0x27 \<and> takeWhile is_term_char rest' \<noteq> []
                then (run @ [q] @ takeWhile is_term_char rest')
                     # find_tokens (dropWhile is_term_char rest')
                else run # find_tokens rest)
      else find_tokens cs)"
  by pat_completeness auto
termination
proof (relation "measure length")
  fix c :: char and cs x xa x21 x22
  assume rest: "xa = dropWhile is_term_char cs" "xa = x21 # x22"
  have "length xa \<le> length cs"
    unfolding rest(1) by (rule length_dropWhile_le)
  then have le: "length x22 < length cs" "length xa < Suc (length cs)"
    by (simp_all add: rest(2))
  have "length (dropWhile is_term_char x22) \<le> length x22"
    by (rule length_dropWhile_le)
  with le show "(dropWhile is_term_char x22, c # cs) \<in> measure length"
    by simp
  from le show "(xa, c # cs) \<in> measure length"
    by simp
qed auto

definition tokenize :: "string \<Rightarrow> string list" where
  "tokenize s = find_tokens (lower s)"

section \<open>Corpus index (retriever.py, \<open>HybridRetriever\<close>)\<close>

record chunk =
  chunk_source :: string
  chunk_start :: int
  chunk_end :: int
  chunk_text :: string

definition first_seen :: "'a list \<Rightarrow> 'a list" where
  \<comment> \<open>the distinct elements in the order of their first occurrence\<close>
  "first_seen xs = rev (remdups (rev xs))"

definition counter :: "'a list \<Rightarrow> ('a \<times> nat) list" where
  \<comment> \<open>\<open>Counter(toks).items()\<close>\<close>
  "counter toks = map (\<lambda>t. (t, count_list toks t)) (first_seen toks)"

definition df_counter :: "string list list \<Rightarrow> string \<Rightarrow> nat" where
  \<comment> \<open>the number of documents whose token set has the term\<close>
  "df_counter tokenized_corpus t = length (filter (\<lambda>toks. t \<in> set toks) tokenized_corpus)"

text \<open>
  The table \<open>idf\<close> has one entry for every term of \<open>df_counter\<close>, that is for every term
  of some document. The enumeration \<open>vocab\<close> numbers these keys and is read nowhere else.
\<close>

definition build_idf :: "string list list \<Rightarrow> (string \<rightharpoonup> real)" where
  "build_idf tokenized_corpus =
     (\<lambda>t. let df = df_counter tokenized_corpus t;
              n_docs = max 1 (length tokenized_corpus)
          in if df = 0 then None
             else Some (ln ((real n_docs + 1) / (real df + 1)) + 1))"

definition tfidf_vector :: "(string \<rightharpoonup> real) \<Rightarrow> string list \<Rightarrow> (string \<times> real) list" where
  \<comment> \<open>the weights of the terms the table knows, divided by their Euclidean norm\<close>
  "tfidf_vector idf_table toks =
     (let vec = List.map_filter
                  (\<lambda>(t, freq). case idf_table t of
                       None \<Rightarrow> None
                     | Some w \<Rightarrow> Some (t, (real freq / real (length toks)) * w))
                  (counter toks);
          s = sqrt (sum_list (map (\<lambda>(t, v). v * v) vec));
          norm = (if s = 0 then 1 else s)
      in map (\<lambda>(t, v). (t, v / norm)) vec)"

record retriever =
  alpha :: real
  chunks :: "chunk list"
  tokenized_corpus :: "string list list"
  bm25 :: "(string list \<Rightarrow> real list) option"
  idf :: "string \<rightharpoonup> real"
  doc_tfidf :: "(string \<times> real) list list"

text \<open>
  Construction. The corpus file is \<open>None\<close> when it does not exist and the list of its
  records otherwise. \<open>BM25Okapi\<close> is the constructor of the BM25 library: from the tokenized
  corpus it gives the function \<open>get_scores\<close>.
\<close>

definition HybridRetriever ::
  "(string list list \<Rightarrow> string list \<Rightarrow> real list) \<Rightarrow> chunk list option \<Rightarrow> real \<Rightarrow> retriever" where
  "HybridRetriever BM25Okapi corpus_file a =
     (case corpus_file of
        None \<Rightarrow>
          \<lparr>alpha = a, chunks = [], tokenized_corpus = [], bm25 = None,
           idf = Map.empty, doc_tfidf = []\<rparr>
      | Some cs \<Rightarrow>
          (let toks = map (\<lambda>c. tokenize (chunk_text c)) cs
           in \<lparr>alpha = a, chunks = cs, tokenized_corpus = toks,
               bm25 = (if toks \<noteq> [] then Some (BM25Okapi toks) else None),
               idf = build_idf toks,
               doc_tfidf = map (tfidf_vector (build_idf toks)) toks\<rparr>))"

section \<open>Hybrid scorer and retrieval service (retriever.py, \<open>search\<close>)\<close>

definition tfidf_query :: "retriever \<Rightarrow> string \<Rightarrow> (string \<times> real) list" where
  "tfidf_query r query =
     (let toks = tokenize query
      in if toks = [] then [] else tfidf_vector (idf r) toks)"

definition cosine_sparse :: "(string \<times> real) list \<Rightarrow> (string \<times> real) list \<Rightarrow> real" where
  "cosine_sparse a b =
     (if a = [] \<or> b = [] then 0
      else
        let (a', b') = (if length a > length b then (b, a) else (a, b))
        in fold (\<lambda>(t, w) dot. case map_of b' t of None \<Rightarrow> dot | Some bw \<Rightarrow> dot + w * bw)
             a' 0)"

definition normalize :: "real list \<Rightarrow> real list" where
  "normalize arr =
     (if arr = [] then arr
      else
        let mn = Min (set arr); mx = Max (set arr)
        in if mx - mn < 1 / 10 ^ 9 then map (\<lambda>x. 0) arr
           else map (\<lambda>x. (x - mn) / (mx - mn)) arr)"

definition py_slice_to :: "int \<Rightarrow> 'a list \<Rightarrow> 'a list" where
  \<comment> \<open>\<open>xs[:k]\<close>: a negative bound counts from the end\<close>
  "py_slice_to k xs =
     (if 0 \<le> k then take (nat k) xs else take (nat (int (length xs) + k)) xs)"

record scored_chunk =
  r_source :: string
  r_start :: int
  r_end :: int
  r_text :: string
  r_score :: real
  r_bm25 :: real
  r_tfidf :: real

text \<open>
  \<open>argsort\<close> is NumPy's: it is a parameter of \<open>search\<close>. By its contract the result is a
  permutation of the indices that puts the values in ascending order; the default kind,
  which \<open>search\<close> uses, does not promise an order among equal values. The two normalized
  arrays are added entry by entry: both have one entry for each chunk when the BM25
  library returns one score for each document.
\<close>

definition argsort_ok :: "(real list \<Rightarrow> nat list) \<Rightarrow> bool" where
  "argsort_ok argsort =
     (\<forall>xs. distinct (argsort xs) \<and> set (argsort xs) = {0..<length xs}
           \<and> sorted (map (\<lambda>i. xs ! i) (argsort xs)))"

definition search :: "(real list \<Rightarrow> nat list) \<Rightarrow> retriever \<Rightarrow> string \<Rightarrow> int \<Rightarrow> scored_chunk list" where
  "search argsort r query k =
     (if chunks r = [] then []
      else
        let bm25_scores = (case bm25 r of
                             Some get_scores \<Rightarrow> get_scores (tokenize query)
                           | None \<Rightarrow> replicate (length (chunks r)) 0);
            q_vec = tfidf_query r query;
            tfidf_scores = map (cosine_sparse q_vec) (doc_tfidf r);
            bm25_n = normalize bm25_scores;
            tfidf_n = normalize tfidf_scores;
            hybrid = map2 (\<lambda>b t. alpha r * b + (1 - alpha r) * t) bm25_n tfidf_n;
            idxs = py_slice_to k (argsort (map uminus hybrid))
        in map (\<lambda>i. let c = chunks r ! i
                    in \<lparr>r_source = chunk_source c, r_start = chunk_start c,
                        r_end = chunk_end c, r_text = chunk_text c,
                        r_score = hybrid ! i, r_bm25 = bm25_n ! i, r_tfidf = tfidf_n ! i\<rparr>)
             idxs)"

section \<open>Text generation (llm.py)\<close>

datatype llm_error =
  Timeout | ConnectionError | HTTPError nat | JSONDecodeError | AssertionError | RuntimeError
  | APIError

record http_response =
  status_code :: nat
  message_content :: "string option option"
    \<comment> \<open>\<open>None\<close>: the body is no JSON; \<open>Some c\<close>: the value of \<open>message.content\<close>, if any\<close>

datatype extra_value = Names "string list" | Name "string option"

record metrics =
  latency_ms :: real
  retrieved_k :: nat
  route :: string
  extra :: "(string \<times> extra_value) list option"

record citation =
  cit_source :: string
  cit_start :: int
  cit_end :: int

record answer_response =
  resp_answer :: string
  resp_citations :: "citation list"
  resp_sources :: "string list"
  resp_metrics :: "metrics option"

text \<open>
  What lies outside the program: NumPy's \<open>argsort\<close>, the process environment, whether the
  hosted client library is installed, the HTTP call of the local provider
  (\<open>requests.post\<close> on the system and user prompt), the hosted chat completion, the system
  prompt read at import time, and the price path, which no property below is about.
\<close>

record world =
  np_argsort :: "real list \<Rightarrow> nat list"
  os_environ :: "string \<rightharpoonup> string"
  openai_installed :: bool
  requests_post :: "string \<Rightarrow> string \<Rightarrow> llm_error + http_response"
  openai_create :: "string \<Rightarrow> string \<Rightarrow> llm_error + string option"
  SYSTEM_PROMPT :: string
  answer_price :: "string \<Rightarrow> answer_response"

definition getenv :: "world \<Rightarrow> string \<Rightarrow> string \<Rightarrow> string" where
  "getenv w name dflt = (case os_environ w name of None \<Rightarrow> dflt | Some v \<Rightarrow> v)"

definition provider :: "world \<Rightarrow> string" where
  "provider w = lower (getenv w ''LLM_PROVIDER'' (getenv w ''OPENAI_PROVIDER'' ''ollama''))"

definition model_name :: "world \<Rightarrow> string" where
  "model_name w =
     (if provider w = ''ollama'' then getenv w ''LLM_MODEL'' ''llama3.2:3b''
      else getenv w ''OPENAI_MODEL'' ''gpt-4o-mini'')"

definition is_configured :: "world \<Rightarrow> bool" where
  "is_configured w =
     (if provider w = ''ollama'' then True
      else (case os_environ w ''OPENAI_API_KEY'' of None \<Rightarrow> False | Some key \<Rightarrow> key \<noteq> [])
           \<and> openai_installed w)"

definition openai_client :: "world \<Rightarrow> llm_error + unit" where
  "openai_client w =
     (if \<not> openai_installed w then Inl AssertionError
      else case os_environ w ''OPENAI_API_KEY'' of
             None \<Rightarrow> Inl RuntimeError
           | Some key \<Rightarrow> if key = [] then Inl RuntimeError else Inr ())"

definition ollama_chat :: "world \<Rightarrow> string \<Rightarrow> string \<Rightarrow> llm_error + string option" where
  \<comment> \<open>\<open>requests.post\<close> raises on a timeout or a transport error, \<open>raise_for_status\<close> on a
      status from 400 to 599, \<open>resp.json()\<close> on a body that is no JSON\<close>
  "ollama_chat w system_prompt user_prompt =
     (case requests_post w system_prompt user_prompt of
        Inl e \<Rightarrow> Inl e
      | Inr resp \<Rightarrow>
          if 400 \<le> status_code resp \<and> status_code resp < 600
          then Inl (HTTPError (status_code resp))
          else (case message_content resp of
                  None \<Rightarrow> Inl JSONDecodeError
                | Some content \<Rightarrow> Inr content))"

definition newline :: string where
  "newline = [CHR 0x0A]"

definition apostrophe :: string where
  "apostrophe = [CHR 0x27]"

definition user_content :: "string \<Rightarrow> (string \<times> string) list \<Rightarrow> string" where
  \<comment> \<open>a context is the pair of its tag and its text\<close>
  "user_content question contexts =
     join newline
       ([''You are a strict, citation-first assistant.'',
         ''Use ONLY the provided context. If the answer is not in context, say you don''
           @ apostrophe @ ''t know.'',
         ''Every claim MUST include a citation tag copied EXACTLY from the allowed tags below.'',
         ''Be concise (<= 5 sentences).'',
         ''Question: '' @ question,
         ''Allowed citation tags (use EXACTLY as-is; do NOT invent new tags):'']
        @ map (\<lambda>(tag, body). ''- ['' @ tag @ '']'') contexts
        @ [''Context chunks:'']
        @ concat (map (\<lambda>(tag, body). [''['' @ tag @ '']'', body]) contexts))"

definition or_empty :: "string option \<Rightarrow> string" where
  \<comment> \<open>\<open>out or ""\<close>\<close>
  "or_empty out = (case out of None \<Rightarrow> [] | Some s \<Rightarrow> s)"

definition synthesize_answer ::
  "world \<Rightarrow> string \<Rightarrow> string \<Rightarrow> (string \<times> string) list \<Rightarrow> llm_error + string" where
  "synthesize_answer w system_prompt question contexts =
     (let content = user_content question contexts
      in if provider w = ''ollama'' then
           (case ollama_chat w system_prompt content of
              Inl e \<Rightarrow> Inl e
            | Inr out \<Rightarrow> Inr (strip (or_empty out)))
         else
           (case openai_client w of
              Inl e \<Rightarrow> Inl e
            | Inr client \<Rightarrow>
                (case openai_create w system_prompt content of
                   Inl e \<Rightarrow> Inl e
                 | Inr out \<Rightarrow> Inr (strip (or_empty out)))))"

section \<open>Query router and answer composer (agent.py)\<close>

definition is_word_char :: "char \<Rightarrow> bool" where
  \<comment> \<open>the class \<open>\w\<close> on the code points below 256\<close>
  "is_word_char c =
     (let n = of_char c :: nat
      in (48 \<le> n \<and> n \<le> 57) \<or> (65 \<le> n \<and> n \<le> 90) \<or> n = 95 \<or> (97 \<le> n \<and> n \<le> 122)
         \<or> n \<in> {170, 178, 179, 181, 185, 186, 188, 189, 190}
         \<or> (192 \<le> n \<and> n \<noteq> 215 \<and> n \<noteq> 247))"

definition price_keywords :: "string list" where
  "price_keywords =
     [''price'', ''close'', ''open'', ''high'', ''low'', ''last'', ''latest'', ''compare'',
      ''performance'', ''return'', ''percentage'', ''pct'']"

definition keyword_here :: "string \<Rightarrow> string \<Rightarrow> bool" where
  \<comment> \<open>the keyword, then a word boundary\<close>
  "keyword_here kw s =
     (starts_with kw s
      \<and> (case drop (length kw) s of [] \<Rightarrow> True | c # cs \<Rightarrow> \<not> is_word_char c))"

fun search_keywords :: "bool \<Rightarrow> string \<Rightarrow> bool" where
  \<comment> \<open>the flag says whether the character before is a word character\<close>
  "search_keywords prev [] = False"
| "search_keywords prev (c # cs) =
     ((\<not> prev \<and> (\<exists>kw \<in> set price_keywords. keyword_here kw (c # cs)))
      \<or> search_keywords (is_word_char c) cs)"

definition is_price_query :: "string \<Rightarrow> bool" where
  "is_price_query q = search_keywords False (lower q)"

function show_nat :: "nat \<Rightarrow> string" where
  "show_nat n =
     (if n < 10 then [char_of (48 + n)]
      else show_nat (n div 10) @ [char_of (48 + n mod 10)])"
  by pat_completeness auto
termination
  by (relation "measure id") auto

definition show_int :: "int \<Rightarrow> string" where
  "show_int i = (if i < 0 then ''-'' @ show_nat (nat (- i)) else show_nat (nat i))"

definition citation_tag :: "scored_chunk \<Rightarrow> string" where
  \<comment> \<open>the tag of a result: source, an at sign, start, a colon, end\<close>
  "citation_tag r = r_source r @ ''@'' @ show_int (r_start r) @ '':'' @ show_int (r_end r)"

definition dict_update :: "'k \<Rightarrow> 'v \<Rightarrow> ('k \<times> 'v) list \<Rightarrow> ('k \<times> 'v) list" where
  "dict_update k v d =
     (if k \<in> fst ` set d then map (\<lambda>(k', v'). if k' = k then (k', v) else (k', v')) d
      else d @ [(k, v)])"

definition no_context_answer :: string where
  "no_context_answer =
     ''I couldn'' @ apostrophe @ ''t find relevant context in the provided documents.''"

definition citations_of :: "scored_chunk list \<Rightarrow> citation list" where
  "citations_of results =
     map (\<lambda>r. \<lparr>cit_source = r_source r, cit_start = r_start r, cit_end = r_end r\<rparr>) results"

definition sources_of :: "scored_chunk list \<Rightarrow> string list" where
  \<comment> \<open>\<open>sorted({r["source"] for r in results})\<close>\<close>
  "sources_of results = sort (remdups (map r_source results))"

definition extractive_answer :: "string \<Rightarrow> scored_chunk list \<Rightarrow> string" where
  "extractive_answer system_prompt results =
     (let citation_strs = map (\<lambda>r. ''['' @ citation_tag r @ '']'') results;
          composed = join (newline @ newline) (map r_text results)
      in system_prompt @ newline @ newline @ composed @ newline @ newline
         @ join '' '' citation_strs)"

text \<open>
  \<open>answer\<close> returns the response, or the exception that leaves it. The retriever is the
  process-wide instance; the metrics file that \<open>timed\<close> and \<open>record_metric\<close> append to is
  left out.
\<close>

definition answer :: "world \<Rightarrow> retriever \<Rightarrow> string \<Rightarrow> int \<Rightarrow> llm_error + answer_response" where
  "answer w retr question k =
     (if is_price_query question then
        (let resp = answer_price w question
         in Inr (case resp_metrics resp of
                   None \<Rightarrow> resp
                 | Some m \<Rightarrow>
                     (case extra m of
                        None \<Rightarrow> resp
                      | Some d \<Rightarrow>
                          resp\<lparr>resp_metrics :=
                            Some (m\<lparr>extra :=
                              Some (dict_update ''used_tools'' (Names [''prices_tool'']) d)\<rparr>)\<rparr>)))
      else
        let results = search (np_argsort w) retr question k
        in if results = [] then
             Inr \<lparr>resp_answer = no_context_answer, resp_citations = [], resp_sources = [],
                  resp_metrics = Some \<lparr>latency_ms = 0, retrieved_k = 0, route = ''rag'',
                    extra = Some [(''used_tools'', Names [''retriever''])]\<rparr>\<rparr>
           else if is_configured w then
             (let contexts = map (\<lambda>r. (citation_tag r, r_text r)) results;
                  model = model_name w
              in case synthesize_answer w (SYSTEM_PROMPT w) question contexts of
                   Inl e \<Rightarrow> Inl e
                 | Inr generated \<Rightarrow>
                     (let allowed_tags = map fst contexts;
                          answer_text = clean_citations generated allowed_tags (take 3 allowed_tags)
                      in Inr \<lparr>resp_answer = answer_text,
                              resp_citations = citations_of results,
                              resp_sources = sources_of results,
                              resp_metrics = Some \<lparr>latency_ms = 0,
                                retrieved_k = length results, route = ''rag+llm'',
                                extra = Some [(''used_tools'',
                                                Names [''retriever'', provider w @ '':'' @ model]),
                                              (''model'', Name (Some model))]\<rparr>\<rparr>))
           else
             Inr \<lparr>resp_answer = extractive_answer (SYSTEM_PROMPT w) results,
                  resp_citations = citations_of results,
                  resp_sources = sources_of results,
                  resp_metrics = Some \<lparr>latency_ms = 0, retrieved_k = length results,
                    route = ''rag'',
                    extra = Some [(''used_tools'', Names [''retriever'']),
                                  (''model'', Name None)]\<rparr>\<rparr>)"

definition get_retriever ::
  "(string list list \<Rightarrow> string list \<Rightarrow> real list) \<Rightarrow> chunk list option \<Rightarrow> retriever" where
  \<comment> \<open>\<open>_get_retriever\<close>: the instance that \<open>answer\<close> uses\<close>
  "get_retriever BM25Okapi corpus_file = HybridRetriever BM25Okapi corpus_file (65 / 100)"

section \<open>Auxiliary notions\<close>

text \<open>The fused scores that \<open>search\<close> ranks, as one function of the retriever and the query.\<close>

definition hybrid_scores :: "retriever \<Rightarrow> string \<Rightarrow> real list" where
  "hybrid_scores r query =
     map2 (\<lambda>b t. alpha r * b + (1 - alpha r) * t)
       (normalize (case bm25 r of
                     Some get_scores \<Rightarrow> get_scores (tokenize query)
                   | None \<Rightarrow> replicate (length (chunks r)) 0))
       (normalize (map (cosine_sparse (tfidf_query r query)) (doc_tfidf r)))"

text \<open>
  A retriever is well formed when it has one TF-IDF vector for each chunk and its BM25
  scorer returns one score for each chunk, as the library does.
\<close>

definition retriever_ok :: "retriever \<Rightarrow> bool" where
  "retriever_ok r =
     (length (doc_tfidf r) = length (chunks r)
      \<and> (\<forall>q. length (case bm25 r of
                       Some get_scores \<Rightarrow> get_scores q
                     | None \<Rightarrow> replicate (length (chunks r)) 0) = length (chunks r)))"

subsection \<open>Concrete libraries and inputs for the closed examples\<close>

text \<open>
  \<open>stable_argsort\<close> meets the contract of \<open>argsort\<close> and keeps equal values in index
  order. \<open>overlap_scores\<close> stands for a BM25 scorer: it counts the query tokens that a
  document has.
\<close>

definition stable_argsort :: "real list \<Rightarrow> nat list" where
  "stable_argsort xs = sort_key (\<lambda>i. xs ! i) [0..<length xs]"

definition overlap_scores :: "string list list \<Rightarrow> string list \<Rightarrow> real list" where
  "overlap_scores corpus q =
     map (\<lambda>doc. real (length (filter (\<lambda>t. t \<in> set doc) q))) corpus"

definition q2_chunk :: chunk where
  "q2_chunk =
     \<lparr>chunk_source = ''q2_letter.html'', chunk_start = 0, chunk_end = 20,
      chunk_text = ''SPY rallied in Q2 amid macro tailwinds''\<rparr>"

definition q1_chunk :: chunk where
  "q1_chunk =
     \<lparr>chunk_source = ''q1_letter.html'', chunk_start = 0, chunk_end = 18,
      chunk_text = ''Rates were unchanged in Q1''\<rparr>"

definition q2_retriever :: retriever where
  "q2_retriever = get_retriever overlap_scores (Some [q2_chunk])"

definition two_chunk_retriever :: retriever where
  "two_chunk_retriever = get_retriever overlap_scores (Some [q1_chunk, q2_chunk])"

definition spy_question :: string where
  "spy_question = ''Did the letter mention SPY?''"

definition default_prompt :: string where
  \<comment> \<open>the system prompt when the prompt file is missing\<close>
  "default_prompt = ''Answer using provided context only; cite chunks like [doc@start:end].''"

definition empty_response :: answer_response where
  "empty_response =
     \<lparr>resp_answer = [], resp_citations = [], resp_sources = [], resp_metrics = None\<rparr>"

definition offline_world :: world where
  \<comment> \<open>the setting of the tests: \<open>LLM_PROVIDER=off\<close> and no hosted key\<close>
  "offline_world =
     \<lparr>np_argsort = stable_argsort, os_environ = [''LLM_PROVIDER'' \<mapsto> ''off''],
      openai_installed = False,
      requests_post = (\<lambda>sys usr. Inl ConnectionError),
      openai_create = (\<lambda>sys usr. Inl APIError),
      SYSTEM_PROMPT = default_prompt,
      answer_price = (\<lambda>q. empty_response)\<rparr>"

definition timeout_world :: world where
  \<comment> \<open>the default local provider, whose HTTP call times out\<close>
  "timeout_world =
     \<lparr>np_argsort = stable_argsort, os_environ = Map.empty,
      openai_installed = False,
      requests_post = (\<lambda>sys usr. Inl Timeout),
      openai_create = (\<lambda>sys usr. Inl APIError),
      SYSTEM_PROMPT = default_prompt,
      answer_price = (\<lambda>q. empty_response)\<rparr>"

definition http500_world :: world where
  \<comment> \<open>the default local provider, which answers with status 500\<close>
  "http500_world =
     \<lparr>np_argsort = stable_argsort, os_environ = Map.empty,
      openai_installed = False,
      requests_post = (\<lambda>sys usr. Inr \<lparr>status_code = 500, message_content = None\<rparr>),
      openai_create = (\<lambda>sys usr. Inl APIError),
      SYSTEM_PROMPT = default_prompt,
      answer_price = (\<lambda>q. empty_response)\<rparr>"

section \<open>Properties of the citation sanitizer\<close>

lemma starts_with_append: "starts_with p (p @ s)"
  by (induction p) auto

lemma allowed_tag_remains_append:
  "allowed_tag_remains allowed_tags ys \<Longrightarrow> allowed_tag_remains allowed_tags (xs @ ys)"
  by (induction xs) auto

lemma allowed_tag_remains_bracketed:
  assumes "t \<in> set allowed_tags"
  shows "allowed_tag_remains allowed_tags (bracketed t @ s)"
proof -
  have "t \<in> set (tag_alternatives allowed_tags)"
    using assms by (auto simp: tag_alternatives_def)
  moreover obtain c cs where cs: "bracketed t @ s = c # cs"
    by (simp add: bracketed_def)
  moreover have "starts_with (bracketed t) (bracketed t @ s)"
    by (rule starts_with_append)
  ultimately show ?thesis
    by auto
qed

lemma join_Cons: "join sep (x # xs) = x @ (if xs = [] then [] else sep @ join sep xs)"
  by (cases xs) auto

lemma allowed_tag_remains_fallback:
  assumes "allowed_tags \<noteq> []"
  shows "allowed_tag_remains allowed_tags
           (body @ '' '' @ join '' '' (map bracketed (take 3 allowed_tags)))"
proof -
  obtain t ts where ts: "allowed_tags = t # ts"
    using assms by (cases allowed_tags) auto
  have "map bracketed (take 3 allowed_tags) = bracketed t # map bracketed (take 2 ts)"
    by (simp add: ts)
  then obtain s where "join '' '' (map bracketed (take 3 allowed_tags)) = bracketed t @ s"
    by (simp add: join_Cons)
  moreover have "allowed_tag_remains allowed_tags (bracketed t @ s)"
    by (rule allowed_tag_remains_bracketed) (simp add: ts)
  ultimately show ?thesis
    by (metis allowed_tag_remains_append)
qed

text \<open>
  The example of the specification: one valid and one invalid tag. The invalid tag is the
  only removal, so its span is still right when the loop cuts it.
\<close>

lemma clean_citations_spec_example:
  "clean_citations ''X [doc_a@0:10] Y [evil@0:0] Z'' [''doc_a@0:10''] [''doc_a@0:10'']
     = ''X [doc_a@0:10] Y  Z''"
  by code_simp

text \<open>
  C1. The sanitizer is to delete every bracketed token that is no allowed tag and to keep
  the surrounding text. With two invalid tokens the second span, computed on the original
  text, no longer fits the text shortened by the first removal: the second invalid token
  stays, and the text behind it is lost.
\<close>

theorem clean_citations_stale_offsets:
  "clean_citations ''A [x@0:1] B [y@2:3] C'' [''doc_a@0:10''] [''doc_a@0:10'']
     = ''A  B [y@2:3] [doc_a@0:10]''"
  by code_simp




section \<open>Properties of the retriever\<close>

subsection \<open>The library contracts\<close>

lemma stable_argsort_ok: "argsort_ok stable_argsort"
  by (simp add: argsort_ok_def stable_argsort_def)

lemma length_argsort:
  assumes "argsort_ok argsort"
  shows "length (argsort xs) = length xs"
proof -
  have "distinct (argsort xs)" "set (argsort xs) = {0..<length xs}"
    using assms by (simp_all add: argsort_ok_def)
  then have "card {0..<length xs} = length (argsort xs)"
    by (metis distinct_card)
  then show ?thesis by simp
qed

lemma argsort_single:
  assumes "argsort_ok argsort"
  shows "argsort [x] = [0]"
proof -
  have len: "length (argsort [x]) = 1"
    using assms by (simp add: length_argsort)
  have "set (argsort [x]) = {0}"
    using assms by (simp add: argsort_ok_def)
  with len show ?thesis
    by (cases "argsort [x]") auto
qed

lemma length_overlap_scores: "length (overlap_scores corpus q) = length corpus"
  by (simp add: overlap_scores_def)

lemma HybridRetriever_ok:
  assumes "\<And>corpus q. length (BM25Okapi corpus q) = length corpus"
  shows "retriever_ok (HybridRetriever BM25Okapi corpus_file a)"
  using assms
  by (cases corpus_file) (auto simp: retriever_ok_def HybridRetriever_def Let_def)

lemma q2_retriever_ok: "retriever_ok q2_retriever"
  unfolding q2_retriever_def get_retriever_def
  by (rule HybridRetriever_ok) (rule length_overlap_scores)

lemma two_chunk_retriever_ok: "retriever_ok two_chunk_retriever"
  unfolding two_chunk_retriever_def get_retriever_def
  by (rule HybridRetriever_ok) (rule length_overlap_scores)

lemma chunks_q2_retriever: "chunks q2_retriever = [q2_chunk]"
  by (simp add: q2_retriever_def get_retriever_def HybridRetriever_def Let_def)

lemma chunks_two_chunk_retriever: "chunks two_chunk_retriever = [q1_chunk, q2_chunk]"
  by (simp add: two_chunk_retriever_def get_retriever_def HybridRetriever_def Let_def)

subsection \<open>Normalization\<close>

lemma length_normalize: "length (normalize arr) = length arr"
  by (simp add: normalize_def Let_def)

lemma normalize_single: "normalize [x] = [0]"
  by (simp add: normalize_def)

text \<open>
  C7. For every non-empty array of scores, \<open>normalize\<close> keeps the length, every value of
  the result lies between 0 and 1, the result is all zeros when the maximum exceeds the
  minimum by less than \<open>1e-9\<close>, and otherwise each score \<open>x\<close> becomes
  \<open>(x - min) / (max - min)\<close>.
\<close>

theorem normalize_range:
  assumes "arr \<noteq> []"
  shows "length (normalize arr) = length arr
         \<and> (\<forall>x \<in> set (normalize arr). 0 \<le> x \<and> x \<le> 1)
         \<and> (Max (set arr) - Min (set arr) < 1 / 10 ^ 9
              \<longrightarrow> normalize arr = replicate (length arr) 0)
         \<and> (\<not> Max (set arr) - Min (set arr) < 1 / 10 ^ 9
              \<longrightarrow> normalize arr
                  = map (\<lambda>x. (x - Min (set arr)) / (Max (set arr) - Min (set arr))) arr)"
proof -
  let ?mn = "Min (set arr)" and ?mx = "Max (set arr)"
  have range: "0 \<le> (x - ?mn) / (?mx - ?mn) \<and> (x - ?mn) / (?mx - ?mn) \<le> 1"
    if "x \<in> set arr" "\<not> ?mx - ?mn < 1 / 10 ^ 9" for x
  proof -
    have "?mn \<le> x" "x \<le> ?mx"
      using that(1) by simp_all
    moreover have "0 < ?mx - ?mn"
      using that(2) by (smt (verit) divide_pos_pos zero_less_power zero_less_one)
    ultimately show ?thesis
      by (simp add: divide_le_eq_1)
  qed
  have "\<forall>x \<in> set (normalize arr). 0 \<le> x \<and> x \<le> 1"
    using range by (auto simp: normalize_def Let_def)
  moreover have "?mx - ?mn < 1 / 10 ^ 9 \<longrightarrow> normalize arr = replicate (length arr) 0"
    using assms by (simp add: normalize_def Let_def map_replicate_const)
  moreover have "\<not> ?mx - ?mn < 1 / 10 ^ 9
      \<longrightarrow> normalize arr = map (\<lambda>x. (x - ?mn) / (?mx - ?mn)) arr"
    using assms by (simp add: normalize_def Let_def)
  ultimately show ?thesis
    by (simp add: length_normalize)
qed

theorem normalize_range_witness:
  "normalize [2, 4, 3] = [0, 1, 1 / 2] \<and> normalize [5, 5] = [0, 0]"
proof -
  have spread: "\<not> Max (set [2, 4, 3 :: real]) - Min (set [2, 4, 3]) < 1 / 10 ^ 9"
    by simp
  have flat: "Max (set [5, 5 :: real]) - Min (set [5, 5]) < 1 / 10 ^ 9"
    by simp
  have "normalize [2, 4, 3]
          = map (\<lambda>x. (x - Min (set [2, 4, 3])) / (Max (set [2, 4, 3]) - Min (set [2, 4, 3])))
              [2, 4, 3]"
    using normalize_range [of "[2, 4, 3]"] spread by blast
  moreover have "normalize [5, 5] = replicate (length [5, 5 :: real]) 0"
    using normalize_range [of "[5, 5]"] flat by blast
  ultimately show ?thesis
    by simp
qed

subsection \<open>Inverse document frequency\<close>

lemma df_counter_le: "df_counter docs t \<le> length docs"
  by (simp add: df_counter_def)

lemma build_idf_dom: "dom (build_idf docs) = (\<Union>toks \<in> set docs. set toks)"
  by (auto simp: build_idf_def Let_def dom_def df_counter_def filter_empty_conv
      split: if_splits)

lemma build_idf_Nil: "build_idf [] = Map.empty"
  by (rule ext) (simp add: build_idf_def df_counter_def)

lemma idf_HybridRetriever:
  "idf (HybridRetriever BM25Okapi corpus_file a)
     = build_idf (tokenized_corpus (HybridRetriever BM25Okapi corpus_file a))"
  by (cases corpus_file) (simp_all add: HybridRetriever_def Let_def build_idf_Nil)

text \<open>
  C8. Every term \<open>t\<close> of some document has an entry in the table. With \<open>df\<close> the number
  of documents that have the term and \<open>N = max 1 (number of documents)\<close>, the entry is
  \<open>ln ((N + 1) / (df + 1)) + 1\<close>, and it is positive, also when the term occurs in every
  document.
\<close>

theorem idf_formula_positive:
  assumes "t \<in> set toks" and "toks \<in> set docs"
  shows "\<exists>v. build_idf docs t = Some v
             \<and> v = ln ((real (max 1 (length docs)) + 1)
                         / (real (length (filter (\<lambda>d. t \<in> set d) docs)) + 1)) + 1
             \<and> 0 < v"
proof -
  define df where "df = length (filter (\<lambda>d. t \<in> set d) docs)"
  define q where "q = (real (max 1 (length docs)) + 1) / (real df + 1)"
  have "t \<in> dom (build_idf docs)"
    using assms by (auto simp: build_idf_dom)
  then obtain v where some: "build_idf docs t = Some v"
    by blast
  then have v: "v = ln q + 1"
    by (simp add: build_idf_def df_counter_def Let_def q_def df_def split: if_splits)
  have "df \<le> length docs"
    unfolding df_def by (rule length_filter_le)
  then have "df \<le> max 1 (length docs)"
    by simp
  then have "real df + 1 \<le> real (max 1 (length docs)) + 1"
    by linarith
  then have "1 \<le> q"
    unfolding q_def by (simp add: le_divide_eq_1)
  then have "0 \<le> ln q"
    by (rule ln_ge_zero)
  then have "0 < v"
    unfolding v by linarith
  with some v show ?thesis
    unfolding q_def df_def by blast
qed

theorem idf_formula_positive_witness:
  "build_idf [[''spy'', ''rallied''], [''spy'']] ''spy'' = Some 1
   \<and> build_idf [[''spy'', ''rallied''], [''spy'']] ''rallied'' = Some (ln (3 / 2) + 1)"
proof -
  let ?docs = "[[''spy'', ''rallied''], [''spy'']]"
  have spy: "''spy'' \<in> set [''spy'']" "[''spy''] \<in> set ?docs"
    by simp_all
  have rallied: "''rallied'' \<in> set [''spy'', ''rallied'']" "[''spy'', ''rallied''] \<in> set ?docs"
    by simp_all
  from idf_formula_positive [OF spy]
  have "build_idf ?docs ''spy'' = Some 1"
    by simp
  moreover from idf_formula_positive [OF rallied]
  have "build_idf ?docs ''rallied'' = Some (ln (3 / 2) + 1)"
    by simp
  ultimately show ?thesis
    by (rule conjI)
qed

subsection \<open>Ranking and top-k selection\<close>

lemma length_hybrid_scores:
  "retriever_ok r \<Longrightarrow> length (hybrid_scores r query) = length (chunks r)"
  by (simp add: hybrid_scores_def retriever_ok_def length_normalize)

lemma search_unfold:
  "search argsort r query k
     = (if chunks r = [] then []
        else map (\<lambda>i. \<lparr>r_source = chunk_source (chunks r ! i),
                        r_start = chunk_start (chunks r ! i),
                        r_end = chunk_end (chunks r ! i),
                        r_text = chunk_text (chunks r ! i),
                        r_score = hybrid_scores r query ! i,
                        r_bm25 = normalize (case bm25 r of
                                   Some get_scores \<Rightarrow> get_scores (tokenize query)
                                 | None \<Rightarrow> replicate (length (chunks r)) 0) ! i,
                        r_tfidf = normalize (map (cosine_sparse (tfidf_query r query))
                                    (doc_tfidf r)) ! i\<rparr>)
               (py_slice_to k (argsort (map uminus (hybrid_scores r query)))))"
  unfolding search_def hybrid_scores_def Let_def by (rule refl)

lemma search_scores:
  "map r_score (search argsort r query k)
     = (if chunks r = [] then []
        else map (\<lambda>i. hybrid_scores r query ! i)
               (py_slice_to k (argsort (map uminus (hybrid_scores r query)))))"
  by (simp add: search_unfold comp_def)

lemma length_search:
  "length (search argsort r query k)
     = (if chunks r = [] then 0
        else length (py_slice_to k (argsort (map uminus (hybrid_scores r query)))))"
  by (simp add: search_unfold)

lemma length_py_slice_to:
  "length (py_slice_to k xs)
     = (if 0 \<le> k then min (nat k) (length xs) else nat (int (length xs) + k))"
  by (auto simp: py_slice_to_def)

lemma length_search_ok:
  assumes "argsort_ok argsort" "retriever_ok r"
  shows "length (search argsort r query k)
           = (if 0 \<le> k then min (nat k) (length (chunks r))
              else nat (int (length (chunks r)) + k))"
  using assms
  by (simp add: length_search length_py_slice_to length_argsort length_hybrid_scores)

text \<open>
  C4, as amended. For every retriever, every query and every \<open>k \<ge> 0\<close>, \<open>search\<close> returns
  at most \<open>k\<close> results, and none when \<open>k = 0\<close>.
\<close>

theorem search_length:
  assumes "0 \<le> k"
  shows "int (length (search argsort r query k)) \<le> k
         \<and> (k = 0 \<longrightarrow> search argsort r query k = [])"
proof -
  have "length (search argsort r query k) \<le> nat k"
    using assms by (simp add: length_search py_slice_to_def)
  then have "int (length (search argsort r query k)) \<le> k"
    using assms by linarith
  moreover have "search argsort r query k = []" if "k = 0"
    using that by (simp add: search_unfold py_slice_to_def)
  ultimately show ?thesis by blast
qed

theorem search_length_witness:
  "int (length (search stable_argsort q2_retriever spy_question 3)) \<le> 3
   \<and> search stable_argsort q2_retriever spy_question 0 = []"
  using search_length [of 3 stable_argsort q2_retriever spy_question]
    search_length [of 0 stable_argsort q2_retriever spy_question]
  by simp

text \<open>
  A negative \<open>k\<close>: the slice \<open>[:k]\<close> drops the last \<open>- k\<close> entries of the ranking, so on two
  chunks \<open>k = - 1\<close> gives one result.
\<close>

theorem search_negative_k_counterexample:
  "\<not> int (length (search stable_argsort two_chunk_retriever spy_question (- 1))) \<le> - 1
   \<and> length (search stable_argsort two_chunk_retriever spy_question (- 1)) = 1
   \<and> search stable_argsort two_chunk_retriever spy_question (- 1) \<noteq> []"
proof -
  have "length (search stable_argsort two_chunk_retriever spy_question (- 1)) = 1"
    by (simp add: length_search_ok [OF stable_argsort_ok two_chunk_retriever_ok]
        chunks_two_chunk_retriever)
  then show ?thesis
    by auto
qed

text \<open>
  With \<open>argsort\<close> taken by its contract, the hybrid scores of the results never increase
  along the list. The order among results of equal score is the one that \<open>argsort\<close>
  returns; the contract leaves it open.
\<close>

lemma search_scores_descending:
  assumes "argsort_ok argsort"
  shows "sorted_wrt (\<lambda>a b. b \<le> a) (map r_score (search argsort r query k))"
proof (cases "chunks r = []")
  case True
  then show ?thesis by (simp add: search_unfold)
next
  case False
  define h where "h = hybrid_scores r query"
  define idxs where "idxs = argsort (map uminus h)"
  have in_range: "i < length h" if "i \<in> set idxs" for i
    using assms that by (simp add: idxs_def argsort_ok_def)
  have "sorted (map (\<lambda>i. map uminus h ! i) idxs)"
    using assms by (simp add: idxs_def argsort_ok_def)
  then have "sorted_wrt (\<lambda>i j. map uminus h ! i \<le> map uminus h ! j) idxs"
    by (simp add: sorted_wrt_map)
  then have "sorted_wrt (\<lambda>i j. h ! j \<le> h ! i) idxs"
    by (rule sorted_wrt_mono_rel [rotated]) (simp add: in_range)
  then have "sorted_wrt (\<lambda>i j. h ! j \<le> h ! i) (py_slice_to k idxs)"
    by (simp add: py_slice_to_def sorted_wrt_take)
  then have "sorted_wrt (\<lambda>a b. b \<le> a) (map (\<lambda>i. h ! i) (py_slice_to k idxs))"
    by (simp add: sorted_wrt_map)
  then show ?thesis
    using False by (simp add: search_scores h_def idxs_def)
qed

subsection \<open>A corpus of one chunk\<close>

lemma hybrid_scores_single:
  assumes "retriever_ok r" "chunks r = [c]"
  shows "hybrid_scores r query = [0]"
proof -
  obtain b where b: "(case bm25 r of Some get_scores \<Rightarrow> get_scores (tokenize query)
                      | None \<Rightarrow> replicate (length (chunks r)) 0) = [b]"
    using assms
    by (auto simp: retriever_ok_def length_Suc_conv dest!: spec [where x = "tokenize query"])
  obtain d where d: "doc_tfidf r = [d]"
    using assms by (auto simp: retriever_ok_def length_Suc_conv)
  show ?thesis
    by (simp add: hybrid_scores_def b d normalize_single)
qed

lemma search_single:
  assumes "argsort_ok argsort" "retriever_ok r" "chunks r = [c]" "1 \<le> k"
  shows "search argsort r query k
           = [\<lparr>r_source = chunk_source c, r_start = chunk_start c, r_end = chunk_end c,
               r_text = chunk_text c, r_score = 0, r_bm25 = 0, r_tfidf = 0\<rparr>]"
proof -
  obtain b where b: "(case bm25 r of Some get_scores \<Rightarrow> get_scores (tokenize query)
                      | None \<Rightarrow> replicate (length (chunks r)) 0) = [b]"
    using assms
    by (auto simp: retriever_ok_def length_Suc_conv dest!: spec [where x = "tokenize query"])
  obtain d where d: "doc_tfidf r = [d]"
    using assms by (auto simp: retriever_ok_def length_Suc_conv)
  have h: "hybrid_scores r query = [0]"
    using assms by (simp add: hybrid_scores_single)
  have idxs: "py_slice_to k (argsort (map uminus (hybrid_scores r query))) = [0]"
    using assms by (simp add: h argsort_single py_slice_to_def)
  show ?thesis
    unfolding search_unfold idxs by (simp add: assms h b d normalize_single)
qed

lemma search_q2:
  assumes "argsort_ok argsort"
  shows "search argsort q2_retriever query 3
           = [\<lparr>r_source = ''q2_letter.html'', r_start = 0, r_end = 20,
               r_text = ''SPY rallied in Q2 amid macro tailwinds'',
               r_score = 0, r_bm25 = 0, r_tfidf = 0\<rparr>]"
  using search_single [OF assms q2_retriever_ok chunks_q2_retriever, of 3 query]
  by (simp add: q2_chunk_def)

section \<open>Properties of the answer composer\<close>

subsection \<open>The retrieval path\<close>

lemma answer_rag:
  assumes "\<not> is_price_query question"
    and "search (np_argsort w) retr question k = results"
    and "results \<noteq> []"
  shows "answer w retr question k =
     (if is_configured w then
        (case synthesize_answer w (SYSTEM_PROMPT w) question
                (map (\<lambda>r. (citation_tag r, r_text r)) results) of
           Inl e \<Rightarrow> Inl e
         | Inr generated \<Rightarrow>
             Inr \<lparr>resp_answer = clean_citations generated (map citation_tag results)
                                  (take 3 (map citation_tag results)),
                  resp_citations = citations_of results,
                  resp_sources = sources_of results,
                  resp_metrics = Some \<lparr>latency_ms = 0, retrieved_k = length results,
                    route = ''rag+llm'',
                    extra = Some [(''used_tools'',
                                    Names [''retriever'',
                                           provider w @ '':'' @ model_name w]),
                                  (''model'', Name (Some (model_name w)))]\<rparr>\<rparr>)
      else
        Inr \<lparr>resp_answer = extractive_answer (SYSTEM_PROMPT w) results,
             resp_citations = citations_of results,
             resp_sources = sources_of results,
             resp_metrics = Some \<lparr>latency_ms = 0, retrieved_k = length results,
               route = ''rag'',
               extra = Some [(''used_tools'', Names [''retriever'']),
                             (''model'', Name None)]\<rparr>\<rparr>)"
  unfolding answer_def Let_def
  by (simp add: assms comp_def take_map split: sum.splits)

lemma answer_rag_returned:
  assumes "\<not> is_price_query question"
    and "search (np_argsort w) retr question k = results"
    and "results \<noteq> []"
    and "answer w retr question k = Inr resp"
  shows "resp_citations resp = citations_of results \<and> resp_sources resp = sources_of results"
  using assms(4) unfolding answer_rag [OF assms(1-3)]
  by (auto split: if_splits sum.splits)

lemma not_price_spy_question: "\<not> is_price_query spy_question"
  by code_simp

lemma provider_default: "os_environ w = Map.empty \<Longrightarrow> provider w = ''ollama''"
  by (simp add: provider_def getenv_def lower_def py_lower_char_def)

lemma is_configured_timeout_world: "is_configured timeout_world"
  by (simp add: is_configured_def provider_default timeout_world_def)

lemma is_configured_http500_world: "is_configured http500_world"
  by (simp add: is_configured_def provider_default http500_world_def)

lemma not_configured_offline_world: "\<not> is_configured offline_world"
  by code_simp

subsection \<open>Failure of the generation call\<close>

lemma synthesize_answer_post_failure:
  assumes "provider w = ''ollama''"
    and "requests_post w system_prompt (user_content question contexts) = Inl e"
  shows "synthesize_answer w system_prompt question contexts = Inl e"
  using assms by (simp add: synthesize_answer_def ollama_chat_def Let_def)

lemma synthesize_answer_bad_status:
  assumes "provider w = ''ollama''"
    and "requests_post w system_prompt (user_content question contexts) = Inr resp"
    and "400 \<le> status_code resp" "status_code resp < 600"
  shows "synthesize_answer w system_prompt question contexts
           = Inl (HTTPError (status_code resp))"
  using assms by (simp add: synthesize_answer_def ollama_chat_def Let_def)

text \<open>
  C3, as amended. On the retrieval path with evidence and a configured generator, a
  failure of the generation call is the outcome of \<open>answer\<close>: no response is returned.
  Nothing catches the exception, and the extractive text is composed only when no
  generator is configured.
\<close>

theorem answer_generation_failure:
  assumes "\<not> is_price_query question"
    and "search (np_argsort w) retr question k \<noteq> []"
    and "is_configured w"
    and "synthesize_answer w (SYSTEM_PROMPT w) question
           (map (\<lambda>r. (citation_tag r, r_text r)) (search (np_argsort w) retr question k))
         = Inl e"
  shows "answer w retr question k = Inl e
         \<and> \<not> (\<exists>resp. answer w retr question k = Inr resp)"
  using assms by (simp add: answer_rag [OF assms(1) refl assms(2)])

theorem answer_generation_failure_witness:
  "answer http500_world q2_retriever spy_question 3 = Inl (HTTPError 500)"
proof -
  have results: "search (np_argsort http500_world) q2_retriever spy_question 3 \<noteq> []"
    by (simp add: http500_world_def search_q2 [OF stable_argsort_ok])
  have "synthesize_answer http500_world (SYSTEM_PROMPT http500_world) spy_question
          (map (\<lambda>r. (citation_tag r, r_text r))
             (search (np_argsort http500_world) q2_retriever spy_question 3))
        = Inl (HTTPError 500)"
    by (rule synthesize_answer_bad_status [where resp = "\<lparr>status_code = 500, message_content = None\<rparr>", simplified])
      (simp_all add: provider_default http500_world_def)
  from answer_generation_failure
    [OF not_price_spy_question results is_configured_http500_world this]
  show ?thesis
    by blast
qed

theorem answer_timeout_counterexample:
  "answer timeout_world q2_retriever spy_question 3 = Inl Timeout
   \<and> \<not> (\<exists>resp. answer timeout_world q2_retriever spy_question 3 = Inr resp)"
proof -
  have results: "search (np_argsort timeout_world) q2_retriever spy_question 3 \<noteq> []"
    by (simp add: timeout_world_def search_q2 [OF stable_argsort_ok])
  have "synthesize_answer timeout_world (SYSTEM_PROMPT timeout_world) spy_question
          (map (\<lambda>r. (citation_tag r, r_text r))
             (search (np_argsort timeout_world) q2_retriever spy_question 3))
        = Inl Timeout"
    by (rule synthesize_answer_post_failure)
      (simp_all add: provider_default timeout_world_def)
  then show ?thesis
    by (simp add: answer_rag [OF not_price_spy_question refl results]
        is_configured_timeout_world)
qed

subsection \<open>Citations and sources of a response\<close>

text \<open>
  C10. When the retrieval path finds a non-empty result list and \<open>answer\<close> returns a
  response, its citations are one per retrieved chunk, in rank order, with the source,
  start and end of that chunk, and its sources are the sources of the retrieved chunks,
  without duplicates and in ascending lexicographic order.
\<close>

theorem answer_citations_sources:
  assumes "\<not> is_price_query question"
    and "search (np_argsort w) retr question k = results"
    and "results \<noteq> []"
    and "answer w retr question k = Inr resp"
  shows "resp_citations resp
           = map (\<lambda>r. \<lparr>cit_source = r_source r, cit_start = r_start r, cit_end = r_end r\<rparr>)
               results
         \<and> length (resp_citations resp) = length results
         \<and> sorted (resp_sources resp)
         \<and> distinct (resp_sources resp)
         \<and> set (resp_sources resp) = r_source ` set results"
proof -
  have "resp_citations resp = citations_of results" "resp_sources resp = sources_of results"
    using answer_rag_returned [OF assms] by simp_all
  then show ?thesis
    by (simp add: citations_of_def sources_of_def)
qed

lemma show_int_0: "show_int 0 = ''0''"
  by code_simp

lemma show_int_20: "show_int 20 = ''20''"
  by code_simp

lemma answer_offline_q2:
  "answer offline_world q2_retriever spy_question 3
     = Inr \<lparr>resp_answer = default_prompt @ newline @ newline
              @ ''SPY rallied in Q2 amid macro tailwinds'' @ newline @ newline
              @ ''[q2_letter.html@0:20]'',
            resp_citations = [\<lparr>cit_source = ''q2_letter.html'', cit_start = 0, cit_end = 20\<rparr>],
            resp_sources = [''q2_letter.html''],
            resp_metrics = Some \<lparr>latency_ms = 0, retrieved_k = 1, route = ''rag'',
              extra = Some [(''used_tools'', Names [''retriever'']),
                            (''model'', Name None)]\<rparr>\<rparr>"
proof -
  let ?results = "[\<lparr>r_source = ''q2_letter.html'', r_start = 0, r_end = 20,
          r_text = ''SPY rallied in Q2 amid macro tailwinds'',
          r_score = 0, r_bm25 = 0, r_tfidf = 0\<rparr>]"
  have results: "search (np_argsort offline_world) q2_retriever spy_question 3 = ?results"
    by (simp add: offline_world_def search_q2 [OF stable_argsort_ok])
  have prompt: "SYSTEM_PROMPT offline_world = default_prompt"
    by (simp add: offline_world_def)
  have "answer offline_world q2_retriever spy_question 3
      = Inr \<lparr>resp_answer = extractive_answer default_prompt ?results,
          resp_citations = citations_of ?results,
          resp_sources = sources_of ?results,
          resp_metrics = Some \<lparr>latency_ms = 0, retrieved_k = length ?results,
            route = ''rag'',
            extra = Some [(''used_tools'', Names [''retriever'']),
                          (''model'', Name None)]\<rparr>\<rparr>"
    by (simp add: answer_rag [OF not_price_spy_question results]
        not_configured_offline_world prompt)
  then show ?thesis
    by (simp add: extractive_answer_def citations_of_def sources_of_def citation_tag_def
        show_int_0 show_int_20)
qed

theorem answer_citations_sources_witness:
  "\<exists>resp. answer offline_world q2_retriever spy_question 3 = Inr resp
      \<and> resp_citations resp
          = [\<lparr>cit_source = ''q2_letter.html'', cit_start = 0, cit_end = 20\<rparr>]
      \<and> set (resp_sources resp) = {''q2_letter.html''}"
proof -
  let ?results = "[\<lparr>r_source = ''q2_letter.html'', r_start = 0, r_end = 20,
          r_text = ''SPY rallied in Q2 amid macro tailwinds'',
          r_score = 0, r_bm25 = 0, r_tfidf = 0\<rparr>]"
  have results: "search (np_argsort offline_world) q2_retriever spy_question 3 = ?results"
    by (simp add: offline_world_def search_q2 [OF stable_argsort_ok])
  obtain resp where resp: "answer offline_world q2_retriever spy_question 3 = Inr resp"
    using answer_offline_q2 by blast
  from answer_citations_sources [OF not_price_spy_question results _ resp]
  have "resp_citations resp
          = [\<lparr>cit_source = ''q2_letter.html'', cit_start = 0, cit_end = 20\<rparr>]
        \<and> set (resp_sources resp) = {''q2_letter.html''}"
    by simp
  with resp show ?thesis
    by blast
qed

subsection \<open>The extractive text\<close>

text \<open>
  C9, as amended. When no generator is configured and retrieval returns a non-empty
  result list, the answer text is the system prompt, a blank line, the texts of the
  evidence chunks in rank order separated by blank lines, a blank line, and the citation
  tags \<open>[source@start:end]\<close> of all evidence chunks separated by spaces.
\<close>

theorem extractive_answer_text:
  assumes "\<not> is_price_query question"
    and "\<not> is_configured w"
    and "search (np_argsort w) retr question k = results"
    and "results \<noteq> []"
  shows "\<exists>resp. answer w retr question k = Inr resp
           \<and> resp_answer resp
               = SYSTEM_PROMPT w @ newline @ newline
                 @ join (newline @ newline) (map r_text results)
                 @ newline @ newline
                 @ join '' ''
                     (map (\<lambda>r. ''['' @ r_source r @ ''@'' @ show_int (r_start r) @ '':''
                                @ show_int (r_end r) @ '']'') results)"
  unfolding answer_rag [OF assms(1,3,4)]
  by (simp add: assms(2) extractive_answer_def citation_tag_def)

theorem extractive_answer_text_witness:
  "\<exists>resp. answer offline_world q2_retriever spy_question 3 = Inr resp
      \<and> resp_answer resp
          = default_prompt @ newline @ newline
            @ ''SPY rallied in Q2 amid macro tailwinds'' @ newline @ newline
            @ ''[q2_letter.html@0:20]''"
proof -
  let ?results = "[\<lparr>r_source = ''q2_letter.html'', r_start = 0, r_end = 20,
          r_text = ''SPY rallied in Q2 amid macro tailwinds'',
          r_score = 0, r_bm25 = 0, r_tfidf = 0\<rparr>]"
  have results: "search (np_argsort offline_world) q2_retriever spy_question 3 = ?results"
    by (simp add: offline_world_def search_q2 [OF stable_argsort_ok])
  have prompt: "SYSTEM_PROMPT offline_world = default_prompt"
    by (simp add: offline_world_def)
  have "?results \<noteq> []"
    by simp
  from extractive_answer_text
    [OF not_price_spy_question not_configured_offline_world results this]
  show ?thesis
    by (simp add: prompt show_int_0 show_int_20)
qed

text \<open>
  The text of the extractive answer begins with the system prompt, not with the evidence.
\<close>

theorem extractive_answer_prompt_counterexample:
  "map_sum id resp_answer (answer offline_world q2_retriever spy_question 3)
     = Inr (''Answer using provided context only; cite chunks like [doc@start:end].''
            @ newline @ newline @ ''SPY rallied in Q2 amid macro tailwinds''
            @ newline @ newline @ ''[q2_letter.html@0:20]'')
   \<and> map_sum id resp_answer (answer offline_world q2_retriever spy_question 3)
       \<noteq> Inr (''SPY rallied in Q2 amid macro tailwinds''
              @ newline @ newline @ ''[q2_letter.html@0:20]'')
   \<and> \<not> starts_with ''SPY rallied in Q2 amid macro tailwinds''
         (default_prompt @ newline @ newline @ ''SPY rallied in Q2 amid macro tailwinds''
          @ newline @ newline @ ''[q2_letter.html@0:20]'')"
  by (simp add: answer_offline_q2 default_prompt_def)

subsection \<open>End to end on a corpus of one chunk\<close>

text \<open>
  C6, as amended. For the corpus of the one chunk \<open>q2_letter.html\<close>, 0 to 20, and the
  query ``Did the letter mention SPY?'' with \<open>k = 3\<close>, \<open>search\<close> returns exactly that chunk,
  with hybrid score 0: both arrays of one score are normalized to zero. Every response
  that \<open>answer\<close> returns has the one citation of that chunk and the sources
  \<open>q2_letter.html\<close>, and a response is returned when no generator is configured.
\<close>

theorem single_chunk_end_to_end:
  assumes "argsort_ok (np_argsort w)"
    and "\<And>corpus q. length (BM25Okapi corpus q) = length corpus"
  shows "search (np_argsort w) (get_retriever BM25Okapi (Some [q2_chunk])) spy_question 3
           = [\<lparr>r_source = ''q2_letter.html'', r_start = 0, r_end = 20,
               r_text = ''SPY rallied in Q2 amid macro tailwinds'',
               r_score = 0, r_bm25 = 0, r_tfidf = 0\<rparr>]
         \<and> (\<forall>resp. answer w (get_retriever BM25Okapi (Some [q2_chunk])) spy_question 3
                      = Inr resp
                \<longrightarrow> resp_citations resp
                      = [\<lparr>cit_source = ''q2_letter.html'', cit_start = 0, cit_end = 20\<rparr>]
                    \<and> resp_sources resp = [''q2_letter.html''])
         \<and> (\<not> is_configured w
                \<longrightarrow> (\<exists>resp. answer w (get_retriever BM25Okapi (Some [q2_chunk]))
                              spy_question 3 = Inr resp))"
proof -
  let ?retr = "get_retriever BM25Okapi (Some [q2_chunk])"
  let ?results = "[\<lparr>r_source = ''q2_letter.html'', r_start = 0, r_end = 20,
          r_text = ''SPY rallied in Q2 amid macro tailwinds'',
          r_score = 0, r_bm25 = 0, r_tfidf = 0\<rparr>]"
  have ok: "retriever_ok ?retr"
    unfolding get_retriever_def by (rule HybridRetriever_ok) (rule assms(2))
  have chunks: "chunks ?retr = [q2_chunk]"
    by (simp add: get_retriever_def HybridRetriever_def Let_def)
  have results: "search (np_argsort w) ?retr spy_question 3 = ?results"
    using search_single [OF assms(1) ok chunks, of 3 spy_question]
    by (simp add: q2_chunk_def)
  have "resp_citations resp
          = [\<lparr>cit_source = ''q2_letter.html'', cit_start = 0, cit_end = 20\<rparr>]
        \<and> resp_sources resp = [''q2_letter.html'']"
    if "answer w ?retr spy_question 3 = Inr resp" for resp
    using answer_rag_returned [OF not_price_spy_question results _ that]
    by (simp add: citations_of_def sources_of_def)
  moreover have "\<exists>resp. answer w ?retr spy_question 3 = Inr resp" if "\<not> is_configured w"
    using that by (simp add: answer_rag [OF not_price_spy_question results])
  ultimately show ?thesis
    using results by blast
qed

theorem single_chunk_end_to_end_witness:
  "search stable_argsort q2_retriever spy_question 3
     = [\<lparr>r_source = ''q2_letter.html'', r_start = 0, r_end = 20,
         r_text = ''SPY rallied in Q2 amid macro tailwinds'',
         r_score = 0, r_bm25 = 0, r_tfidf = 0\<rparr>]
   \<and> (\<exists>resp. answer offline_world q2_retriever spy_question 3 = Inr resp
          \<and> resp_citations resp
              = [\<lparr>cit_source = ''q2_letter.html'', cit_start = 0, cit_end = 20\<rparr>]
          \<and> resp_sources resp = [''q2_letter.html''])"
proof -
  have argsort: "argsort_ok (np_argsort offline_world)"
    by (simp add: offline_world_def stable_argsort_ok)
  note end_to_end =
    single_chunk_end_to_end [of offline_world overlap_scores, OF argsort length_overlap_scores,
      folded q2_retriever_def]
  have "np_argsort offline_world = stable_argsort"
    by (simp add: offline_world_def)
  with end_to_end not_configured_offline_world show ?thesis
    by metis
qed

text \<open>The hybrid score of the one result is 0, not 1.\<close>

theorem single_chunk_score_counterexample:
  "map r_score (search stable_argsort q2_retriever spy_question 3) = [0]
   \<and> map r_score (search stable_argsort q2_retriever spy_question 3) \<noteq> [1]"
  by (simp add: search_q2 [OF stable_argsort_ok])

subsection \<open>The answer of a generator\<close>

lemma clean_citations_cites:
  assumes "txt \<noteq> []" and "allowed_tags \<noteq> []"
  shows "allowed_tag_remains allowed_tags (clean_citations txt allowed_tags (take 3 allowed_tags))"
  using assms allowed_tag_remains_fallback [OF assms(2)]
  by (auto simp: clean_citations_def Let_def)

text \<open>
  On the retrieval path, a non-empty generated text leaves the sanitizer with an allowed
  tag in brackets.
\<close>

lemma answer_generated_text_cites:
  assumes "\<not> is_price_query question"
    and "search (np_argsort w) retr question k = results"
    and "results \<noteq> []"
    and "is_configured w"
    and "synthesize_answer w (SYSTEM_PROMPT w) question
           (map (\<lambda>r. (citation_tag r, r_text r)) results) = Inr generated"
    and "generated \<noteq> []"
  shows "\<exists>resp. answer w retr question k = Inr resp
           \<and> allowed_tag_remains (map citation_tag results) (resp_answer resp)"
  unfolding answer_rag [OF assms(1-3)]
  using clean_citations_cites [of generated "map citation_tag results"] assms(3-6)
  by simp

end
